theory Spec2Isabelle
  imports Complex_Main "HOL-Library.Sublist"
begin

section \<open>Python values and library calls used by the recommender\<close>

text \<open>
  Python strings are modelled as \<^typ>\<open>string\<close>. A code point outside ASCII (the
  pictographs of the message tables) is written \<^verbatim>\<open><U+XXXX>\<close> inside the literal, so
  distinct source strings stay distinct. Python floats (\<^verbatim>\<open>mind_score\<close>,
  \<^verbatim>\<open>confidence\<close>) are modelled as \<^typ>\<open>real\<close>, with decimal constants read as written;
  NaN and the infinities are outside the model.
\<close>

datatype py_error = IndexError | ValueError | KeyError

text \<open>\<^verbatim>\<open>str.lower()\<close> on ASCII letters; other characters are left alone.\<close>

definition lower_char :: "char \<Rightarrow> char" where
  "lower_char c =
     (let n = (of_char c :: nat) in if 65 \<le> n \<and> n \<le> 90 then char_of (n + 32) else c)"

definition lower :: "string \<Rightarrow> string" where
  "lower s = map lower_char s"

text \<open>
  A dict literal is an association list in insertion order. \<^verbatim>\<open>d.get(k, default)\<close>
  never raises; \<^verbatim>\<open>d[k]\<close> raises \<^verbatim>\<open>KeyError\<close> on a missing key.
\<close>

definition dict_get :: "('k \<times> 'v) list \<Rightarrow> 'k \<Rightarrow> 'v \<Rightarrow> 'v" where
  "dict_get d k dflt = (case map_of d k of None \<Rightarrow> dflt | Some v \<Rightarrow> v)"

definition dict_index :: "('k \<times> 'v) list \<Rightarrow> 'k \<Rightarrow> py_error + 'v" where
  "dict_index d k = (case map_of d k of None \<Rightarrow> Inl KeyError | Some v \<Rightarrow> Inr v)"

definition bind :: "'e + 'a \<Rightarrow> ('a \<Rightarrow> 'e + 'b) \<Rightarrow> 'e + 'b" where
  "bind r f = (case r of Inl e \<Rightarrow> Inl e | Inr v \<Rightarrow> f v)"

text \<open>
  The module \<^verbatim>\<open>random\<close> is modelled by an explicit source of draws that is threaded
  through every call: a list of natural numbers, read from the front, that yields 0 once
  it is used up. \<^verbatim>\<open>random.choice(xs)\<close> raises \<^verbatim>\<open>IndexError\<close> on an empty
  sequence and otherwise returns the element at some index below \<^verbatim>\<open>len(xs)\<close>.
  \<^verbatim>\<open>random.sample(xs, k)\<close> raises \<^verbatim>\<open>ValueError\<close> when \<^verbatim>\<open>k > len(xs)\<close> and
  otherwise returns \<^verbatim>\<open>k\<close> elements taken from pairwise different positions.
\<close>

type_synonym rng = "nat list"

fun draw :: "rng \<Rightarrow> nat \<times> rng" where
  "draw [] = (0, [])"
| "draw (r # rs) = (r, rs)"

definition choice :: "'a list \<Rightarrow> rng \<Rightarrow> py_error + ('a \<times> rng)" where
  "choice xs g =
     (if xs = [] then Inl IndexError
      else (case draw g of (r, g') \<Rightarrow> Inr (xs ! (r mod length xs), g')))"

fun sample_loop :: "'a list \<Rightarrow> nat \<Rightarrow> rng \<Rightarrow> 'a list \<times> rng" where
  "sample_loop xs 0 g = ([], g)"
| "sample_loop xs (Suc k) g =
     (case draw g of (r, g1) \<Rightarrow>
        (let i = r mod length xs in
         case sample_loop (take i xs @ drop (Suc i) xs) k g1 of
           (ys, g2) \<Rightarrow> (xs ! i # ys, g2)))"

definition sample :: "'a list \<Rightarrow> nat \<Rightarrow> rng \<Rightarrow> py_error + ('a list \<times> rng)" where
  "sample xs k g = (if length xs < k then Inl ValueError else Inr (sample_loop xs k g))"

section \<open>recommend.py: the rule tables of EmpatheticRecommender\<close>

record templates =
  acknowledgment :: "string list"
  learning_tip :: "string list"
  activity :: "string list"

definition load_emotion_responses :: "(string \<times> templates) list" where
  "load_emotion_responses = [
    (''joy'',
     \<lparr>templates.acknowledgment =
        [''I'm glad to see you're in such a positive mood! <U+1F60A>'',
         ''Your enthusiasm is wonderful! <U+2728>'',
         ''Love seeing your positive energy! <U+1F31F>''],
      templates.learning_tip =
        [''This is a great time to tackle challenging topics!'',
         ''Your positive mindset will help you learn faster.'',
         ''Channel this energy into creative problem-solving!''],
      activity =
        [''Try learning something new and exciting'',
         ''Work on a project you're passionate about'',
         ''Share your knowledge with others'']\<rparr>),
    (''sadness'',
     \<lparr>templates.acknowledgment =
        [''I notice you might be feeling down. That's okay. <U+1F499>'',
         ''It's alright to feel sad sometimes. I'm here for you.'',
         ''Your feelings are valid. Take your time. <U+1FAC2>''],
      templates.learning_tip =
        [''Start with something simple and rewarding today.'',
         ''Small progress is still progress. Be gentle with yourself.'',
         ''Focus on topics that usually bring you comfort.''],
      activity =
        [''Take a break and do something you enjoy'',
         ''Connect with a friend or loved one'',
         ''Practice self-compassion exercises'']\<rparr>),
    (''anger'',
     \<lparr>templates.acknowledgment =
        [''I sense some frustration. Let's work through this together.'',
         ''It's okay to feel angry. Let's channel it productively.'',
         ''Your feelings matter. Let's find a constructive outlet.''],
      templates.learning_tip =
        [''Take a short break before continuing your studies.'',
         ''Physical activity might help clear your mind first.'',
         ''Break down complex problems into manageable steps.''],
      activity =
        [''Try a quick breathing exercise (4-7-8 technique)'',
         ''Go for a brief walk or do some stretches'',
         ''Write down what's bothering you to process it'']\<rparr>),
    (''fear'',
     \<lparr>templates.acknowledgment =
        [''I understand you might be feeling anxious or worried.'',
         ''Fear is natural. Let's take this step by step. <U+1F91D>'',
         ''You're not alone in feeling this way.''],
      templates.learning_tip =
        [''Start with familiar topics to build confidence.'',
         ''Break your goals into very small, achievable steps.'',
         ''Remember past challenges you've successfully overcome.''],
      activity =
        [''Practice grounding techniques (5-4-3-2-1 method)'',
         ''List three things you've accomplished recently'',
         ''Reach out to your support network'']\<rparr>),
    (''surprise'',
     \<lparr>templates.acknowledgment =
        [''Something unexpected? I'm here to help! <U+26A1>'',
         ''Surprises can be great learning opportunities!'',
         ''Embrace the unexpected! <U+1F389>''],
      templates.learning_tip =
        [''This is perfect for exploring new perspectives!'',
         ''Use your curiosity to dive deeper into topics.'',
         ''Unexpected moments often lead to breakthroughs.''],
      activity =
        [''Explore a related topic you haven't considered'',
         ''Ask 'why' and 'what if' questions'',
         ''Document your discoveries'']\<rparr>),
    (''love'',
     \<lparr>templates.acknowledgment =
        [''Your warmth and positivity shine through! <U+2764><U+FE0F>'',
         ''That's beautiful! Love is a powerful motivator.'',
         ''Your caring nature is wonderful! <U+1F496>''],
      templates.learning_tip =
        [''Your passion will fuel deep understanding.'',
         ''Connect your learning to what you care about.'',
         ''Share your enthusiasm with others!''],
      activity =
        [''Mentor someone or share your knowledge'',
         ''Create something meaningful'',
         ''Express gratitude for your learning journey'']\<rparr>),
    (''neutral'',
     \<lparr>templates.acknowledgment =
        [''You seem calm and centered. Good place to start! <U+1F44D>'',
         ''A neutral state is perfect for focused learning.'',
         ''Great mindset for tackling tasks!''],
      templates.learning_tip =
        [''This is ideal for complex problem-solving.'',
         ''Your focus will serve you well today.'',
         ''Maintain this balanced approach.''],
      activity =
        [''Dive into your most important tasks'',
         ''Practice deep work techniques'',
         ''Set clear, achievable goals'']\<rparr>),
    (''disgust'',
     \<lparr>templates.acknowledgment =
        [''Something doesn't feel right? Let's address it.'',
         ''I understand that reaction. Let's reframe this.'',
         ''Your instincts are telling you something.''],
      templates.learning_tip =
        [''Sometimes resistance reveals important insights.'',
         ''Try approaching the topic from a different angle.'',
         ''Focus on why this matters in the bigger picture.''],
      activity =
        [''Take a brief pause to reset'',
         ''Find a more engaging resource on the topic'',
         ''Connect the material to your interests'']\<rparr>)]"

definition load_learning_strategies :: "(string \<times> string list) list" where
  "load_learning_strategies = [
    (''low_stress'',
     [''<U+1F3AF> Set ambitious learning goals for today'',
      ''<U+1F4DA> Tackle that challenging concept you've been avoiding'',
      ''<U+1F9E0> Practice active recall and spaced repetition'',
      ''<U+1F91D> Teach someone else what you're learning'',
      ''<U+1F52C> Experiment with advanced applications'']),
    (''moderate_stress'',
     [''<U+1F4DD> Break your study session into 25-minute intervals (Pomodoro)'',
      ''<U+1F3B5> Add background music or white noise if helpful'',
      ''<U+2705> Focus on one topic at a time'',
      ''<U+1F504> Review what you already know before new material'',
      ''<U+1F4A1> Use visual aids and diagrams to simplify concepts'']),
    (''high_stress'',
     [''<U+23F8><U+FE0F> Take a 10-minute break before continuing'',
      ''<U+1F331> Start with the easiest task to build momentum'',
      ''<U+1F4CB> Make a simple checklist to reduce overwhelm'',
      ''<U+1F9D8> Try a 2-minute mindfulness exercise'',
      ''<U+1F465> Consider studying with a supportive peer'']),
    (''optimal_flow'',
     [''<U+1F30A> You're in the flow state - keep going!'',
      ''<U+26A1> Channel this energy into your most important work'',
      ''<U+1F3A8> This is perfect for creative problem-solving'',
      ''<U+1F680> Push your boundaries while you're in this zone'',
      ''<U+1F4C8> Build on this momentum for maximum progress''])]"

definition load_motivational_quotes :: "string list" where
  "load_motivational_quotes =
    [''Every expert was once a beginner. Keep going! <U+1F4AA>'',
     ''Progress, not perfection. You're doing great! <U+1F31F>'',
     ''Your brain is like a muscle - the more you use it, the stronger it gets! <U+1F9E0>'',
     ''Mistakes are proof that you're trying. Keep learning! <U+1F4DA>'',
     ''The only way to do great work is to love what you do. <U+1F499>'',
     ''Small daily improvements lead to stunning results. <U+2728>'',
     ''You are capable of amazing things! <U+1F308>'',
     ''Learning is a journey, not a destination. Enjoy the process! <U+1F6E4><U+FE0F>'',
     ''Believe in yourself. You've overcome challenges before! <U+1F4AB>'',
     ''Your potential is limitless. Keep pushing forward! <U+1F680>'']"

section \<open>recommend.py: the operations\<close>

record study_plan =
  duration :: string
  approach :: string
  breaks :: string
  recommendation :: string

text \<open>The dict \<^verbatim>\<open>plans\<close> of \<^verbatim>\<open>_generate_study_plan\<close>, keyed by the tuple (emotion, stress_level).\<close>

definition plans :: "((string \<times> string) \<times> study_plan) list" where
  "plans = [
    ((''joy'', ''low''),
     \<lparr>duration = ''45-60 minutes'',
      approach = ''Intensive deep work'',
      breaks = ''Every 45 minutes'',
      recommendation = ''Perfect time for challenging material!''\<rparr>),
    ((''sadness'', ''high''),
     \<lparr>duration = ''15-20 minutes'',
      approach = ''Gentle review of familiar topics'',
      breaks = ''Frequent, every 15 minutes'',
      recommendation = ''Be kind to yourself. Small steps count.''\<rparr>),
    ((''anger'', ''high''),
     \<lparr>duration = ''10 minutes after calming'',
      approach = ''Physical activity first, then study'',
      breaks = ''Take breaks when needed'',
      recommendation = ''Reset your mind before diving in.''\<rparr>),
    ((''fear'', ''moderate''),
     \<lparr>duration = ''25-30 minutes'',
      approach = ''Start with confidence-building review'',
      breaks = ''Every 25 minutes'',
      recommendation = ''Build momentum with what you know.''\<rparr>)]"

definition default_plan :: study_plan where
  "default_plan =
     \<lparr>duration = ''30-40 minutes'',
      approach = ''Balanced focus with regular breaks'',
      breaks = ''Every 30 minutes'',
      recommendation = ''Maintain a steady, sustainable pace.''\<rparr>"

definition generate_study_plan :: "string \<Rightarrow> string \<Rightarrow> study_plan" where
  "generate_study_plan emotion stress_level =
     (let key = (emotion, stress_level) in
      case map_of plans key of
        Some plan \<Rightarrow> plan
      | None \<Rightarrow> default_plan)"

definition get_confidence_note :: "real \<Rightarrow> string" where
  "get_confidence_note confidence =
     (if confidence \<ge> 0.8 then ''I'm very confident about this assessment.''
      else if confidence \<ge> 0.6 then ''This assessment seems reliable.''
      else if confidence \<ge> 0.4 then
        ''This is my best estimate - let me know if it feels off.''
      else ''I'm somewhat uncertain - please provide more context if needed.'')"

record response =
  acknowledgment :: string
  learning_tip :: string
  suggested_activity :: string
  learning_strategies :: "string list"
  motivational_quote :: string
  study_plan :: study_plan
  confidence_note :: string

text \<open>
  \<^verbatim>\<open>generate_response(emotion, confidence, stress_level, mind_score=None)\<close>. The
  five random selections draw in the order of the source: acknowledgment, learning tip,
  activity, the sample of strategies, quote.
\<close>

definition generate_response ::
  "string \<Rightarrow> real \<Rightarrow> string \<Rightarrow> real option \<Rightarrow> rng \<Rightarrow> py_error + (response \<times> rng)" where
  "generate_response emotion0 confidence stress_level mind_score g0 =
     (let emotion = lower emotion0 in
      bind (dict_index load_emotion_responses ''neutral'') (\<lambda>neutral.
      let emotion_data = dict_get load_emotion_responses emotion neutral in
      bind (choice (templates.acknowledgment emotion_data) g0) (\<lambda>(acknowledgment, g1).
      bind (choice (templates.learning_tip emotion_data) g1) (\<lambda>(learning_tip, g2).
      bind (choice (activity emotion_data) g2) (\<lambda>(activity, g3).
      let strategy_key =
            (if stress_level \<noteq> ''optimal'' then stress_level @ ''_stress''
             else ''optimal_flow'') in
      bind (dict_index load_learning_strategies ''moderate_stress'') (\<lambda>moderate.
      let learning_strategies = dict_get load_learning_strategies strategy_key moderate in
      bind (sample learning_strategies (min 3 (length learning_strategies)) g3)
        (\<lambda>(selected_strategies, g4).
      bind (choice load_motivational_quotes g4) (\<lambda>(quote, g5).
      let study_plan = generate_study_plan emotion stress_level in
      Inr (\<lparr>response.acknowledgment = acknowledgment,
            response.learning_tip = learning_tip,
            suggested_activity = activity,
            learning_strategies = selected_strategies,
            motivational_quote = quote,
            study_plan = study_plan,
            confidence_note = get_confidence_note confidence\<rparr>, g5)))))))))"

definition emotion_wellness :: "(string \<times> string list) list" where
  "emotion_wellness = [
    (''sadness'',
     [''<U+1F31E> Get some sunlight or bright light exposure'',
      ''<U+1F3B6> Listen to uplifting music'']),
    (''anger'',
     [''<U+1F94A> Try physical exercise to release tension'',
      ''<U+1F4DD> Journal your thoughts'']),
    (''fear'',
     [''<U+1FAC2> Practice grounding techniques'',
      ''<U+1F4D6> Read something comforting'']),
    (''joy'',
     [''<U+1F4F8> Capture this positive moment'',
      ''<U+1F49D> Spread positivity to others''])]"

text \<open>
  \<^verbatim>\<open>generate_wellness_recommendations(mind_score, emotion, stress_level)\<close>. The
  emotion is looked up as it is passed (this function does not lower-case it), and the
  stress level is not read.
\<close>

definition generate_wellness_recommendations :: "real \<Rightarrow> string \<Rightarrow> string \<Rightarrow> string list" where
  "generate_wellness_recommendations mind_score emotion stress_level =
     (let recommendations =
            (if mind_score < 40 then
               [''<U+1F198> Consider taking a longer break (15-30 minutes)'',
                ''<U+1F4AC> Reach out to someone you trust'',
                ''<U+1F3E5> If feelings persist, consider professional support'',
                ''<U+1F3AF> Focus only on essential tasks today'']
             else if mind_score < 60 then
               [''<U+1F9D8> Practice mindfulness or meditation'',
                ''<U+1F4AA> Light exercise can boost your mood'',
                ''<U+1F4F1> Limit screen time outside of necessary tasks'',
                ''<U+1F634> Ensure you're getting adequate sleep'']
             else
               [''<U+1F31F> Great mental state! Use it wisely'',
                ''<U+1F3AF> This is ideal for tackling big goals'',
                ''<U+1F91D> Help others who might be struggling'',
                ''<U+1F4DA> Invest in long-term learning projects'']);
          recommendations =
            (case map_of emotion_wellness emotion of
               Some tips \<Rightarrow> recommendations @ tips
             | None \<Rightarrow> recommendations)
      in take 6 recommendations)"

definition generate_encouragement :: "real \<Rightarrow> string" where
  "generate_encouragement mind_score =
     (if mind_score \<ge> 80 then
        ''You're doing amazingly well! Keep up this fantastic momentum! <U+1F31F>''
      else if mind_score \<ge> 60 then
        ''You're on a good path! Stay consistent and you'll see great results! <U+1F4AA>''
      else if mind_score \<ge> 40 then
        ''You're making progress! Every step forward counts! <U+1F331>''
      else ''Be gentle with yourself. Tomorrow is a new opportunity! <U+1F499>'')"

text \<open>
  The argument dicts of \<^verbatim>\<open>get_personalized_feedback\<close>: every key it reads may be
  absent. \<^verbatim>\<open>stress_data['mind_score']\<close> is itself a dict with a key \<^verbatim>\<open>mind_score\<close>.
\<close>

record emotion_data =
  dominant_emotion :: "string option"
  confidence :: "real option"

record mind_score_data =
  mind_score :: "real option"

record stress_data =
  stress_level :: "string option"
  mind_score :: "mind_score_data option"

record empathetic_response =
  acknowledgment :: string
  confidence_note :: string

record learning_guidance =
  tip :: string
  strategies :: "string list"
  study_plan :: study_plan

record immediate_actions =
  suggested_activity :: string
  wellness_recommendations :: "string list"

record motivation =
  quote :: string
  encouragement :: string

record feedback =
  empathetic_response :: empathetic_response
  learning_guidance :: learning_guidance
  immediate_actions :: immediate_actions
  motivation :: motivation

definition get_personalized_feedback ::
  "emotion_data \<Rightarrow> stress_data \<Rightarrow> rng \<Rightarrow> py_error + (feedback \<times> rng)" where
  "get_personalized_feedback emotion_data stress_data g =
     (let emotion = (case dominant_emotion emotion_data of Some e \<Rightarrow> e | None \<Rightarrow> ''neutral'');
          confidence = (case emotion_data.confidence emotion_data of Some c \<Rightarrow> c | None \<Rightarrow> 0);
          stress_level = (case stress_level stress_data of Some s \<Rightarrow> s | None \<Rightarrow> ''moderate'');
          mind_score =
            (case mind_score_data.mind_score
                    (case stress_data.mind_score stress_data of
                       Some d \<Rightarrow> d
                     | None \<Rightarrow> \<lparr>mind_score_data.mind_score = None\<rparr>) of
               Some m \<Rightarrow> m
             | None \<Rightarrow> 50)
      in
      bind (generate_response emotion confidence stress_level (Some mind_score) g)
        (\<lambda>(response, g').
      let wellness_recs = generate_wellness_recommendations mind_score emotion stress_level in
      Inr (\<lparr>empathetic_response =
              \<lparr>empathetic_response.acknowledgment = response.acknowledgment response,
               empathetic_response.confidence_note = response.confidence_note response\<rparr>,
            learning_guidance =
              \<lparr>tip = response.learning_tip response,
               strategies = learning_strategies response,
               learning_guidance.study_plan = response.study_plan response\<rparr>,
            immediate_actions =
              \<lparr>immediate_actions.suggested_activity = response.suggested_activity response,
               wellness_recommendations = wellness_recs\<rparr>,
            motivation =
              \<lparr>quote = motivational_quote response,
               encouragement = generate_encouragement mind_score\<rparr>\<rparr>, g')))"

section \<open>emotion_detector.py and main.py: facial labels and the combined insights\<close>

text \<open>The labels the facial classifier emits (\<^verbatim>\<open>FacialEmotionDetector.emotion_labels\<close>).\<close>

definition emotion_labels :: "string list" where
  "emotion_labels = [''Angry'', ''Disgust'', ''Fear'', ''Happy'', ''Sad'', ''Surprise'', ''Neutral'']"

definition mapping :: "(string \<times> string) list" where
  "mapping = [
    (''Happy'', ''joy''),
    (''Sad'', ''sadness''),
    (''Angry'', ''anger''),
    (''Fear'', ''fear''),
    (''Surprise'', ''surprise''),
    (''Disgust'', ''disgust''),
    (''Neutral'', ''neutral'')]"

definition map_facial_to_text_emotion :: "string \<Rightarrow> string" where
  "map_facial_to_text_emotion facial_emotion = dict_get mapping facial_emotion ''neutral''"

record combined_insights =
  alignment :: string
  interpretation_text :: string

text \<open>
  The block of \<^verbatim>\<open>comprehensive_analysis\<close> that fills \<^verbatim>\<open>combined_insights\<close>. Its inputs
  are what the block reads: the dominant emotion of the text analysis when a text was
  analysed, and the dominant emotions of the detected faces, in order, when an image
  was analysed. The insights stay \<^verbatim>\<open>None\<close> unless both are there and a face was found.
\<close>

definition comprehensive_analysis :: "string option \<Rightarrow> string list option \<Rightarrow> combined_insights option" where
  "comprehensive_analysis text_analysis image_analysis =
     (case (text_analysis, image_analysis) of
        (Some text_emotion, Some faces) \<Rightarrow>
          (case faces of
             [] \<Rightarrow> None
           | facial_emotion # _ \<Rightarrow>
               (let alignment =
                      (if lower facial_emotion = lower text_emotion then ''aligned''
                       else ''misaligned'')
                in Some \<lparr>alignment = alignment,
                         interpretation_text =
                           ''Facial expression shows '' @ facial_emotion @
                           '' while text conveys '' @ text_emotion @ ''. '' @
                           ''This '' @
                           (if alignment = ''aligned'' then ''confirms''
                            else ''suggests complexity in'') @
                           '' your emotional state.''\<rparr>))
      | _ \<Rightarrow> None)"

section \<open>text_sentiment.py: sentiment polarity\<close>

text \<open>
  What \<^verbatim>\<open>TextSentimentAnalyzer.analyze\<close> returns, as far as
  \<^verbatim>\<open>get_sentiment_polarity\<close> reads it. The classifier behind it is external, so the
  polarity is modelled as a function of that result; \<^verbatim>\<open>in\<close> on strings is the
  contiguous-substring test.
\<close>

record sentiment_result =
  sentiment :: string
  confidence :: real

definition get_sentiment_polarity :: "sentiment_result \<Rightarrow> real" where
  "get_sentiment_polarity result =
     (let sentiment = sentiment result;
          confidence = sentiment_result.confidence result
      in if sublist ''positive'' (lower sentiment) then confidence
         else if sublist ''negative'' (lower sentiment) then - confidence
         else 0)"

section \<open>The score bands of the specification\<close>

datatype category = Critical | Low | Moderate | Good

text \<open>
  Modelled from the spec: the category that \<^verbatim>\<open>compute_mind_score\<close> assigns to a
  MindScore value. The function lives in \<^verbatim>\<open>ai_models/stress_analysis/predict.py\<close>,
  which is not among the sources; the bands are those of the specification: below 40
  critical, 40 to 59 low, 60 to 79 moderate, 80 and above good.
\<close>

definition mind_score_category :: "real \<Rightarrow> category" where
  "mind_score_category v =
     (if v < 40 then Critical else if v < 60 then Low else if v < 80 then Moderate else Good)"

text \<open>
  The specification's reading of the wellness actions, for comparison with
  \<^const>\<open>generate_wellness_recommendations\<close>: the tips of the score band, then the bonus
  tips of the emotion when it has any, cut to six entries. The moderate and the good
  band carry the same tips.
\<close>

definition score_tier_tips :: "category \<Rightarrow> string list" where
  "score_tier_tips c =
     (case c of
        Critical \<Rightarrow>
          [''<U+1F198> Consider taking a longer break (15-30 minutes)'',
           ''<U+1F4AC> Reach out to someone you trust'',
           ''<U+1F3E5> If feelings persist, consider professional support'',
           ''<U+1F3AF> Focus only on essential tasks today'']
      | Low \<Rightarrow>
          [''<U+1F9D8> Practice mindfulness or meditation'',
           ''<U+1F4AA> Light exercise can boost your mood'',
           ''<U+1F4F1> Limit screen time outside of necessary tasks'',
           ''<U+1F634> Ensure you're getting adequate sleep'']
      | Moderate \<Rightarrow>
          [''<U+1F31F> Great mental state! Use it wisely'',
           ''<U+1F3AF> This is ideal for tackling big goals'',
           ''<U+1F91D> Help others who might be struggling'',
           ''<U+1F4DA> Invest in long-term learning projects'']
      | Good \<Rightarrow>
          [''<U+1F31F> Great mental state! Use it wisely'',
           ''<U+1F3AF> This is ideal for tackling big goals'',
           ''<U+1F91D> Help others who might be struggling'',
           ''<U+1F4DA> Invest in long-term learning projects''])"

definition emotion_bonus_tips :: "string \<Rightarrow> string list" where
  "emotion_bonus_tips emotion =
     (case map_of emotion_wellness emotion of Some tips \<Rightarrow> tips | None \<Rightarrow> [])"

definition spec_wellness_actions :: "real \<Rightarrow> string \<Rightarrow> string list" where
  "spec_wellness_actions score emotion =
     take 6 (score_tier_tips (mind_score_category score) @ emotion_bonus_tips emotion)"

section \<open>The emotion valence of the specification\<close>

text \<open>
  Modelled from the spec: the emotion branch of the Signal Normalizer (section 4.1 of
  the specification). The text emotion classifier that computes the valence,
  \<^verbatim>\<open>ai_models/emotion_detection/predict.py\<close>, is not among the sources. The base
  valences are those the specification gives; the valence is the base valence of the
  category scaled by the confidence, and a category outside the table becomes neutral
  with valence 0.
\<close>

definition base_valence :: "(string \<times> real) list" where
  "base_valence = [
    (''joy'', 0.8),
    (''surprise'', 0.5),
    (''love'', 0.7),
    (''sadness'', - 0.7),
    (''anger'', - 0.6),
    (''fear'', - 0.6),
    (''disgust'', - 0.5),
    (''neutral'', 0)]"

definition normalize_emotion :: "string \<Rightarrow> real \<Rightarrow> string \<times> real" where
  "normalize_emotion category conf =
     (case map_of base_valence category of
        Some b \<Rightarrow> (category, b * conf)
      | None \<Rightarrow> (''neutral'', 0))"

section \<open>Facts about the library model\<close>

lemma choice_returns:
  "xs \<noteq> [] \<Longrightarrow> \<exists>x g'. choice xs g = Inr (x, g') \<and> x \<in> set xs"
  by (cases g) (simp_all add: choice_def)

lemma remove_nth_subset: "set (take i xs @ drop (Suc i) xs) \<subseteq> set xs"
  using set_take_subset [of i xs] set_drop_subset [of "Suc i" xs] by auto

lemma remove_nth_length:
  "i < length xs \<Longrightarrow> length (take i xs @ drop (Suc i) xs) = length xs - 1"
  by (simp add: min_def)

lemma remove_nth_distinct:
  assumes "distinct xs" and "i < length xs"
  shows "distinct (take i xs @ drop (Suc i) xs) \<and> xs ! i \<notin> set (take i xs @ drop (Suc i) xs)"
proof -
  have "xs = take i xs @ xs ! i # drop (Suc i) xs"
    using assms(2) by (simp add: id_take_nth_drop)
  with assms(1) have "distinct (take i xs @ xs ! i # drop (Suc i) xs)" by simp
  then show ?thesis by auto
qed

lemma sample_loop_props:
  "k \<le> length xs \<Longrightarrow> sample_loop xs k g = (ys, g') \<Longrightarrow>
     length ys = k \<and> set ys \<subseteq> set xs \<and> (distinct xs \<longrightarrow> distinct ys)"
proof (induction k arbitrary: xs g ys g')
  case 0
  then show ?case by simp
next
  case (Suc k)
  obtain r g1 where d: "draw g = (r, g1)" by (cases "draw g")
  define i where "i = r mod length xs"
  define rest where "rest = take i xs @ drop (Suc i) xs"
  obtain zs g2 where s: "sample_loop rest k g1 = (zs, g2)" by (cases "sample_loop rest k g1")
  from Suc.prems(1) have pos: "0 < length xs" by (cases xs) simp_all
  then have ilt: "i < length xs" by (simp add: i_def)
  then have "length rest = length xs - 1" unfolding rest_def by (rule remove_nth_length)
  with Suc.prems(1) have kle: "k \<le> length rest" by simp
  have ih: "length zs = k \<and> set zs \<subseteq> set rest \<and> (distinct rest \<longrightarrow> distinct zs)"
    using Suc.IH [OF kle s] .
  have sub: "set rest \<subseteq> set xs" unfolding rest_def by (rule remove_nth_subset)
  have ys: "ys = xs ! i # zs"
    using Suc.prems(2) d s by (simp add: i_def rest_def Let_def)
  have mem: "xs ! i \<in> set xs" using ilt by simp
  have dist: "distinct xs \<longrightarrow> distinct ys"
  proof
    assume dx: "distinct xs"
    from remove_nth_distinct [OF dx ilt]
    have "distinct rest" and "xs ! i \<notin> set rest" by (simp_all add: rest_def)
    with ih show "distinct ys" unfolding ys by auto
  qed
  from ih sub mem dist show ?case unfolding ys by auto
qed

lemma sample_returns:
  "k \<le> length xs \<Longrightarrow>
     \<exists>ys g'. sample xs k g = Inr (ys, g') \<and> length ys = k \<and> set ys \<subseteq> set xs \<and>
       (distinct xs \<longrightarrow> distinct ys)"
proof -
  assume k: "k \<le> length xs"
  obtain ys g' where s: "sample_loop xs k g = (ys, g')" by (cases "sample_loop xs k g")
  from sample_loop_props [OF k s] k s show ?thesis by (simp add: sample_def)
qed

section \<open>Facts about the rule tables\<close>

lemma neutral_entry:
  "dict_index load_emotion_responses ''neutral'' =
     Inr (dict_get load_emotion_responses ''neutral'' undefined)"
  by (simp add: dict_index_def dict_get_def load_emotion_responses_def)

lemma neutral_pools_nonempty:
  "templates.acknowledgment (dict_get load_emotion_responses ''neutral'' undefined) \<noteq> [] \<and>
   templates.learning_tip (dict_get load_emotion_responses ''neutral'' undefined) \<noteq> [] \<and>
   activity (dict_get load_emotion_responses ''neutral'' undefined) \<noteq> []"
  by (simp add: dict_get_def load_emotion_responses_def)

lemma emotion_pools_nonempty:
  assumes "templates.acknowledgment d \<noteq> [] \<and> templates.learning_tip d \<noteq> [] \<and> activity d \<noteq> []"
  shows "templates.acknowledgment (dict_get load_emotion_responses e d) \<noteq> [] \<and>
         templates.learning_tip (dict_get load_emotion_responses e d) \<noteq> [] \<and>
         activity (dict_get load_emotion_responses e d) \<noteq> []"
  using assms by (simp add: dict_get_def load_emotion_responses_def)

lemma moderate_entry:
  "dict_index load_learning_strategies ''moderate_stress'' =
     Inr (dict_get load_learning_strategies ''moderate_stress'' [])"
  by (simp add: dict_index_def dict_get_def load_learning_strategies_def)

lemma moderate_pool_length:
  "length (dict_get load_learning_strategies ''moderate_stress'' []) = 5"
  by (simp add: dict_get_def load_learning_strategies_def)

lemma moderate_pool_distinct:
  "distinct (dict_get load_learning_strategies ''moderate_stress'' [])"
  by (simp add: dict_get_def load_learning_strategies_def)

lemma strategy_pool_length:
  "length d = 5 \<Longrightarrow> length (dict_get load_learning_strategies k d) = 5"
  by (simp add: dict_get_def load_learning_strategies_def)

lemma strategy_pool_distinct:
  "distinct d \<Longrightarrow> distinct (dict_get load_learning_strategies k d)"
  by (simp add: dict_get_def load_learning_strategies_def)

lemma quotes_nonempty: "load_motivational_quotes \<noteq> []"
  by (simp add: load_motivational_quotes_def)

lemma stress_key_low: "s @ ''_stress'' = ''low_stress'' \<longleftrightarrow> s = ''low''"
proof -
  have "''low_stress'' = ''low'' @ ''_stress''" by simp
  then show ?thesis by (simp only: append_same_eq)
qed

lemma stress_key_high: "s @ ''_stress'' = ''high_stress'' \<longleftrightarrow> s = ''high''"
proof -
  have "''high_stress'' = ''high'' @ ''_stress''" by simp
  then show ?thesis by (simp only: append_same_eq)
qed

lemma stress_key_not_flow: "s @ ''_stress'' \<noteq> ''optimal_flow''"
proof
  assume "s @ ''_stress'' = ''optimal_flow''"
  then have "last (s @ ''_stress'') = last ''optimal_flow''" by simp
  then show False by simp
qed

lemma strategy_pool_moderate:
  assumes "s \<noteq> ''low''" and "s \<noteq> ''high''"
  shows "dict_get load_learning_strategies (s @ ''_stress'')
           (dict_get load_learning_strategies ''moderate_stress'' []) =
         dict_get load_learning_strategies ''moderate_stress'' []"
  using assms
  by (simp add: dict_get_def load_learning_strategies_def stress_key_low stress_key_high
      stress_key_not_flow)

lemma lower_neutral: "lower ''neutral'' = ''neutral''"
  by code_simp

lemma unknown_emotion_entry:
  "k \<notin> set (map fst load_emotion_responses) \<Longrightarrow> dict_get load_emotion_responses k d = d"
proof -
  assume "k \<notin> set (map fst load_emotion_responses)"
  then have "map_of load_emotion_responses k = None" by (simp add: map_of_eq_None_iff)
  then show ?thesis by (simp add: dict_get_def)
qed

lemma neutral_emotion_entry:
  "dict_get load_emotion_responses ''neutral'' (dict_get load_emotion_responses ''neutral'' d) =
   dict_get load_emotion_responses ''neutral'' d"
  by (simp add: dict_get_def load_emotion_responses_def)

lemma unknown_emotion_plan:
  "k \<notin> set (map fst load_emotion_responses) \<Longrightarrow> generate_study_plan k s = default_plan"
proof -
  assume "k \<notin> set (map fst load_emotion_responses)"
  then have "k \<noteq> ''joy'' \<and> k \<noteq> ''sadness'' \<and> k \<noteq> ''anger'' \<and> k \<noteq> ''fear''"
    by (simp add: load_emotion_responses_def)
  then show ?thesis by (simp add: generate_study_plan_def plans_def)
qed

lemma neutral_plan: "generate_study_plan ''neutral'' s = default_plan"
  by (simp add: generate_study_plan_def plans_def)

lemma plans_keys:
  "map fst plans = [(''joy'', ''low''), (''sadness'', ''high''), (''anger'', ''high''),
                    (''fear'', ''moderate'')]"
  by (simp add: plans_def)

section \<open>Facts about the operations\<close>

text \<open>
  \<^const>\<open>generate_response\<close> returns for every input, and each field of the response
  comes from the pool that the emotion and the stress level select.
\<close>

lemma generate_response_returns:
  "\<exists>r g'. generate_response emo conf stress ms g = Inr (r, g') \<and>
     response.acknowledgment r \<in>
       set (templates.acknowledgment
              (dict_get load_emotion_responses (lower emo)
                 (dict_get load_emotion_responses ''neutral'' undefined))) \<and>
     response.learning_tip r \<in>
       set (templates.learning_tip
              (dict_get load_emotion_responses (lower emo)
                 (dict_get load_emotion_responses ''neutral'' undefined))) \<and>
     response.suggested_activity r \<in>
       set (activity
              (dict_get load_emotion_responses (lower emo)
                 (dict_get load_emotion_responses ''neutral'' undefined))) \<and>
     length (learning_strategies r) = 3 \<and>
     distinct (learning_strategies r) \<and>
     set (learning_strategies r) \<subseteq>
       set (dict_get load_learning_strategies
              (if stress \<noteq> ''optimal'' then stress @ ''_stress'' else ''optimal_flow'')
              (dict_get load_learning_strategies ''moderate_stress'' [])) \<and>
     motivational_quote r \<in> set load_motivational_quotes \<and>
     response.study_plan r = generate_study_plan (lower emo) stress \<and>
     response.confidence_note r = get_confidence_note conf"
proof -
  let ?entry = "dict_get load_emotion_responses (lower emo)
                  (dict_get load_emotion_responses ''neutral'' undefined)"
  let ?pool = "dict_get load_learning_strategies
                 (if stress \<noteq> ''optimal'' then stress @ ''_stress'' else ''optimal_flow'')
                 (dict_get load_learning_strategies ''moderate_stress'' [])"
  have ne: "templates.acknowledgment ?entry \<noteq> []" "templates.learning_tip ?entry \<noteq> []"
    "activity ?entry \<noteq> []"
    using emotion_pools_nonempty [OF neutral_pools_nonempty, of "lower emo"] by simp_all
  obtain a g1 where a: "choice (templates.acknowledgment ?entry) g = Inr (a, g1)"
    "a \<in> set (templates.acknowledgment ?entry)"
    using choice_returns [OF ne(1), of g] by blast
  obtain t g2 where t: "choice (templates.learning_tip ?entry) g1 = Inr (t, g2)"
    "t \<in> set (templates.learning_tip ?entry)"
    using choice_returns [OF ne(2), of g1] by blast
  obtain v g3 where v: "choice (activity ?entry) g2 = Inr (v, g3)" "v \<in> set (activity ?entry)"
    using choice_returns [OF ne(3), of g2] by blast
  have p5: "length ?pool = 5" by (rule strategy_pool_length [OF moderate_pool_length])
  have pd: "distinct ?pool" by (rule strategy_pool_distinct [OF moderate_pool_distinct])
  have "(3::nat) \<le> length ?pool" using p5 by simp
  from sample_returns [OF this, of g3] pd
  obtain ss g4 where s: "sample ?pool 3 g3 = Inr (ss, g4)" "length ss = 3"
    "set ss \<subseteq> set ?pool" "distinct ss" by blast
  obtain q g5 where q: "choice load_motivational_quotes g4 = Inr (q, g5)"
    "q \<in> set load_motivational_quotes"
    using choice_returns [OF quotes_nonempty, of g4] by blast
  have "generate_response emo conf stress ms g =
          Inr (\<lparr>response.acknowledgment = a, response.learning_tip = t,
                suggested_activity = v, learning_strategies = ss, motivational_quote = q,
                study_plan = generate_study_plan (lower emo) stress,
                confidence_note = get_confidence_note conf\<rparr>, g5)"
    unfolding generate_response_def Let_def neutral_entry moderate_entry
    using a(1) t(1) v(1) s(1) q(1) p5
    by (simp add: bind_def)
  with a(2) t(2) v(2) s(2-4) q(2) show ?thesis by simp
qed

lemma unknown_emotion_response:
  assumes "lower emo \<notin> set (map fst load_emotion_responses)"
  shows "generate_response emo conf stress ms g = generate_response ''neutral'' conf stress ms g"
  unfolding generate_response_def Let_def neutral_entry lower_neutral bind_def sum.case
    unknown_emotion_entry [OF assms] unknown_emotion_plan [OF assms]
    neutral_plan neutral_emotion_entry
  by (rule refl)

lemma wellness_refines_spec:
  "generate_wellness_recommendations score emo stress = spec_wellness_actions score emo"
  by (simp add: generate_wellness_recommendations_def spec_wellness_actions_def
      mind_score_category_def score_tier_tips_def emotion_bonus_tips_def Let_def
      split: option.split)

lemma score_tier_tips_length: "length (score_tier_tips c) = 4"
  by (cases c) (simp_all add: score_tier_tips_def)


lemma wellness_nonempty: "generate_wellness_recommendations score emo stress \<noteq> []"
proof -
  have "length (generate_wellness_recommendations score emo stress) =
          min 6 (4 + length (emotion_bonus_tips emo))"
    by (simp add: wellness_refines_spec spec_wellness_actions_def score_tier_tips_length)
  then have "0 < length (generate_wellness_recommendations score emo stress)" by simp
  then show ?thesis by simp
qed

lemma get_personalized_feedback_of_response:
  assumes "generate_response
             (case dominant_emotion ed of Some e \<Rightarrow> e | None \<Rightarrow> ''neutral'')
             (case emotion_data.confidence ed of Some c \<Rightarrow> c | None \<Rightarrow> 0)
             (case stress_level sd of Some s \<Rightarrow> s | None \<Rightarrow> ''moderate'')
             (Some (case mind_score_data.mind_score
                           (case stress_data.mind_score sd of
                              Some d \<Rightarrow> d
                            | None \<Rightarrow> \<lparr>mind_score_data.mind_score = None\<rparr>) of
                      Some m \<Rightarrow> m
                    | None \<Rightarrow> 50)) g = Inr (r, g')"
  shows "\<exists>fb. get_personalized_feedback ed sd g = Inr (fb, g') \<and>
           strategies (learning_guidance fb) = learning_strategies r \<and>
           wellness_recommendations (immediate_actions fb) =
             generate_wellness_recommendations
               (case mind_score_data.mind_score
                           (case stress_data.mind_score sd of
                              Some d \<Rightarrow> d
                            | None \<Rightarrow> \<lparr>mind_score_data.mind_score = None\<rparr>) of
                      Some m \<Rightarrow> m
                    | None \<Rightarrow> 50)
               (case dominant_emotion ed of Some e \<Rightarrow> e | None \<Rightarrow> ''neutral'')
               (case stress_level sd of Some s \<Rightarrow> s | None \<Rightarrow> ''moderate'')"
  using assms by (simp add: get_personalized_feedback_def Let_def bind_def)

section \<open>Alignment of the facial and the text emotion\<close>

text \<open>
  C1. The alignment check of \<^const>\<open>comprehensive_analysis\<close> compares the two labels
  as lower-cased strings and does not apply the label table first. For the text emotion
  joy and the facial emotion Happy, which the table \<^const>\<open>mapping\<close> sends to joy, it
  therefore reports misaligned together with the complexity interpretation.
\<close>

theorem happy_joy_misaligned:
  "comprehensive_analysis (Some ''joy'') (Some [''Happy'']) =
     Some \<lparr>alignment = ''misaligned'',
           interpretation_text =
             ''Facial expression shows Happy while text conveys joy. This suggests complexity in your emotional state.''\<rparr> \<and>
   map_facial_to_text_emotion ''Happy'' = ''joy''"
  by code_simp

section \<open>Score bands\<close>

text \<open>
  C2, as claimed, fails: not every score-tiered output branches on all three
  thresholds. The scores 79 and 80 lie in different bands and get different
  encouragements, but \<^const>\<open>generate_wellness_recommendations\<close> returns the same
  list for both, since it tests the score against 40 and 60 only.
\<close>

theorem wellness_tier_ignores_80:
  "generate_wellness_recommendations 79 ''joy'' ''low'' =
     generate_wellness_recommendations 80 ''joy'' ''low'' \<and>
   mind_score_category 79 = Moderate \<and> mind_score_category 80 = Good \<and>
   generate_encouragement 79 \<noteq> generate_encouragement 80"
  by (simp add: generate_wellness_recommendations_def mind_score_category_def
      generate_encouragement_def)

text \<open>
  C2, amended. The four category bands are closed below: 40 is low, 60 is moderate, 80
  is good, and each band is exactly the interval the specification names. The
  encouragement branches on the same three thresholds: each of its four messages is
  returned exactly on one band, with 40, 60 and 80 in the upper band. The wellness
  actions branch on 40 and 60 only, both closed below: a score gets the list of 0
  exactly below 40, the list of 40 exactly on [40, 60), and the list of 60 exactly
  from 60 upwards, so 80 is no threshold there.
\<close>

theorem score_tier_thresholds:
  "mind_score_category 40 = Low \<and> mind_score_category 60 = Moderate \<and>
   mind_score_category 80 = Good \<and>
   (mind_score_category v = Critical \<longleftrightarrow> v < 40) \<and>
   (mind_score_category v = Low \<longleftrightarrow> 40 \<le> v \<and> v < 60) \<and>
   (mind_score_category v = Moderate \<longleftrightarrow> 60 \<le> v \<and> v < 80) \<and>
   (mind_score_category v = Good \<longleftrightarrow> 80 \<le> v) \<and>
   (generate_encouragement v =
      ''Be gentle with yourself. Tomorrow is a new opportunity! <U+1F499>'' \<longleftrightarrow> v < 40) \<and>
   (generate_encouragement v =
      ''You're making progress! Every step forward counts! <U+1F331>'' \<longleftrightarrow> 40 \<le> v \<and> v < 60) \<and>
   (generate_encouragement v =
      ''You're on a good path! Stay consistent and you'll see great results! <U+1F4AA>''
        \<longleftrightarrow> 60 \<le> v \<and> v < 80) \<and>
   (generate_encouragement v =
      ''You're doing amazingly well! Keep up this fantastic momentum! <U+1F31F>'' \<longleftrightarrow> 80 \<le> v) \<and>
   (generate_wellness_recommendations v emo stress =
      generate_wellness_recommendations 0 emo stress \<longleftrightarrow> v < 40) \<and>
   (generate_wellness_recommendations v emo stress =
      generate_wellness_recommendations 40 emo stress \<longleftrightarrow> 40 \<le> v \<and> v < 60) \<and>
   (generate_wellness_recommendations v emo stress =
      generate_wellness_recommendations 60 emo stress \<longleftrightarrow> 60 \<le> v)"
proof -
  have cat: "mind_score_category 40 = Low \<and> mind_score_category 60 = Moderate \<and>
   mind_score_category 80 = Good \<and>
   (mind_score_category v = Critical \<longleftrightarrow> v < 40) \<and>
   (mind_score_category v = Low \<longleftrightarrow> 40 \<le> v \<and> v < 60) \<and>
   (mind_score_category v = Moderate \<longleftrightarrow> 60 \<le> v \<and> v < 80) \<and>
   (mind_score_category v = Good \<longleftrightarrow> 80 \<le> v)"
    by (simp add: mind_score_category_def)
  have enc: "(generate_encouragement v =
      ''Be gentle with yourself. Tomorrow is a new opportunity! <U+1F499>'' \<longleftrightarrow> v < 40) \<and>
   (generate_encouragement v =
      ''You're making progress! Every step forward counts! <U+1F331>'' \<longleftrightarrow> 40 \<le> v \<and> v < 60) \<and>
   (generate_encouragement v =
      ''You're on a good path! Stay consistent and you'll see great results! <U+1F4AA>''
        \<longleftrightarrow> 60 \<le> v \<and> v < 80) \<and>
   (generate_encouragement v =
      ''You're doing amazingly well! Keep up this fantastic momentum! <U+1F31F>'' \<longleftrightarrow> 80 \<le> v)"
    by (simp add: generate_encouragement_def)
  have well: "(generate_wellness_recommendations v emo stress =
      generate_wellness_recommendations 0 emo stress \<longleftrightarrow> v < 40) \<and>
   (generate_wellness_recommendations v emo stress =
      generate_wellness_recommendations 40 emo stress \<longleftrightarrow> 40 \<le> v \<and> v < 60) \<and>
   (generate_wellness_recommendations v emo stress =
      generate_wellness_recommendations 60 emo stress \<longleftrightarrow> 60 \<le> v)"
    by (simp add: generate_wellness_recommendations_def Let_def split: option.split)
  from cat enc well show ?thesis by blast
qed

section \<open>Missing readings\<close>

text \<open>
  C3, as claimed, fails: with no emotion reading and no stress reading at all,
  \<^const>\<open>get_personalized_feedback\<close> raises nothing and returns a complete feedback,
  built for the emotion neutral, confidence 0, stress level moderate and score 50.
\<close>

theorem missing_readings_accepted:
  "get_personalized_feedback \<lparr>dominant_emotion = None, confidence = None\<rparr>
     \<lparr>stress_level = None, mind_score = None\<rparr> [] =
   Inr (\<lparr>empathetic_response =
           \<lparr>empathetic_response.acknowledgment =
              ''You seem calm and centered. Good place to start! <U+1F44D>'',
            confidence_note =
              ''I'm somewhat uncertain - please provide more context if needed.''\<rparr>,
         learning_guidance =
           \<lparr>tip = ''This is ideal for complex problem-solving.'',
            strategies =
              [''<U+1F4DD> Break your study session into 25-minute intervals (Pomodoro)'',
               ''<U+1F3B5> Add background music or white noise if helpful'',
               ''<U+2705> Focus on one topic at a time''],
            study_plan = default_plan\<rparr>,
         immediate_actions =
           \<lparr>immediate_actions.suggested_activity = ''Dive into your most important tasks'',
            wellness_recommendations =
              [''<U+1F9D8> Practice mindfulness or meditation'',
               ''<U+1F4AA> Light exercise can boost your mood'',
               ''<U+1F4F1> Limit screen time outside of necessary tasks'',
               ''<U+1F634> Ensure you're getting adequate sleep'']\<rparr>,
         motivation =
           \<lparr>quote = ''Every expert was once a beginner. Keep going! <U+1F4AA>'',
            encouragement = ''You're making progress! Every step forward counts! <U+1F331>''\<rparr>\<rparr>,
        [])"
  by code_simp

text \<open>
  C3, amended. A call never fails for a missing reading: every key that is absent is
  replaced by its default (emotion neutral, confidence 0, stress level moderate,
  score 50), so the call behaves exactly like the call with the defaults filled in, and
  it always returns a feedback.
\<close>

theorem missing_readings_default:
  "get_personalized_feedback ed sd g =
     get_personalized_feedback
       \<lparr>dominant_emotion = Some (case dominant_emotion ed of Some e \<Rightarrow> e | None \<Rightarrow> ''neutral''),
        confidence = Some (case emotion_data.confidence ed of Some c \<Rightarrow> c | None \<Rightarrow> 0)\<rparr>
       \<lparr>stress_level = Some (case stress_level sd of Some s \<Rightarrow> s | None \<Rightarrow> ''moderate''),
        mind_score = Some \<lparr>mind_score_data.mind_score = Some
          (case stress_data.mind_score sd of
             None \<Rightarrow> 50
           | Some d \<Rightarrow> (case mind_score_data.mind_score d of Some m \<Rightarrow> m | None \<Rightarrow> 50))\<rparr>\<rparr>
       g \<and>
   (\<exists>fb g'. get_personalized_feedback ed sd g = Inr (fb, g'))"
proof
  show "get_personalized_feedback ed sd g =
     get_personalized_feedback
       \<lparr>dominant_emotion = Some (case dominant_emotion ed of Some e \<Rightarrow> e | None \<Rightarrow> ''neutral''),
        confidence = Some (case emotion_data.confidence ed of Some c \<Rightarrow> c | None \<Rightarrow> 0)\<rparr>
       \<lparr>stress_level = Some (case stress_level sd of Some s \<Rightarrow> s | None \<Rightarrow> ''moderate''),
        mind_score = Some \<lparr>mind_score_data.mind_score = Some
          (case stress_data.mind_score sd of
             None \<Rightarrow> 50
           | Some d \<Rightarrow> (case mind_score_data.mind_score d of Some m \<Rightarrow> m | None \<Rightarrow> 50))\<rparr>\<rparr>
       g"
    by (cases "stress_data.mind_score sd") (simp_all add: get_personalized_feedback_def)
next
  let ?e = "case dominant_emotion ed of Some e \<Rightarrow> e | None \<Rightarrow> ''neutral''"
  let ?c = "case emotion_data.confidence ed of Some c \<Rightarrow> c | None \<Rightarrow> 0"
  let ?s = "case stress_level sd of Some s \<Rightarrow> s | None \<Rightarrow> ''moderate''"
  let ?m = "case mind_score_data.mind_score
                           (case stress_data.mind_score sd of
                              Some d \<Rightarrow> d
                            | None \<Rightarrow> \<lparr>mind_score_data.mind_score = None\<rparr>) of
                      Some m \<Rightarrow> m
                    | None \<Rightarrow> 50"
  from generate_response_returns [of ?e ?c ?s "Some ?m" g]
  obtain r g' where "generate_response ?e ?c ?s (Some ?m) g = Inr (r, g')" by blast
  from get_personalized_feedback_of_response [OF this]
  show "\<exists>fb g'. get_personalized_feedback ed sd g = Inr (fb, g')" by blast
qed

section \<open>Confidence outside the unit interval\<close>

text \<open>
  C4, as claimed, fails: the confidence 1.5 is not rejected. \<^const>\<open>generate_response\<close>
  returns a response for it, with the high-confidence note.
\<close>

theorem out_of_range_confidence_accepted:
  "generate_response ''joy'' 1.5 ''low'' None [] =
     Inr (\<lparr>response.acknowledgment = ''I'm glad to see you're in such a positive mood! <U+1F60A>'',
           response.learning_tip = ''This is a great time to tackle challenging topics!'',
           suggested_activity = ''Try learning something new and exciting'',
           learning_strategies =
             [''<U+1F3AF> Set ambitious learning goals for today'',
              ''<U+1F4DA> Tackle that challenging concept you've been avoiding'',
              ''<U+1F9E0> Practice active recall and spaced repetition''],
           motivational_quote = ''Every expert was once a beginner. Keep going! <U+1F4AA>'',
           study_plan =
             \<lparr>duration = ''45-60 minutes'',
              approach = ''Intensive deep work'',
              breaks = ''Every 45 minutes'',
              recommendation = ''Perfect time for challenging material!''\<rparr>,
           confidence_note = ''I'm very confident about this assessment.''\<rparr>, [])"
  by code_simp

text \<open>
  C4, amended. No confidence value is rejected: the response is produced for every
  confidence, and its note is the note of that very value, which is not clamped. A
  confidence above 1 gets the high-confidence note and a confidence below 0 the
  explicit-uncertainty note.
\<close>

theorem confidence_not_validated:
  "(\<exists>r g'. generate_response emo conf stress ms g = Inr (r, g') \<and>
      response.confidence_note r = get_confidence_note conf) \<and>
   (1 < conf \<longrightarrow> get_confidence_note conf = ''I'm very confident about this assessment.'') \<and>
   (conf < 0 \<longrightarrow>
      get_confidence_note conf =
        ''I'm somewhat uncertain - please provide more context if needed.'')"
proof (intro conjI)
  from generate_response_returns [of emo conf stress ms g]
  show "\<exists>r g'. generate_response emo conf stress ms g = Inr (r, g') \<and>
      response.confidence_note r = get_confidence_note conf" by blast
qed (simp_all add: get_confidence_note_def)

theorem confidence_not_validated_witness:
  "get_confidence_note 1.5 = ''I'm very confident about this assessment.'' \<and>
   get_confidence_note (- 0.3) =
     ''I'm somewhat uncertain - please provide more context if needed.''"
  using confidence_not_validated [of "''joy''" "1.5" "''low''" None "[]"]
    confidence_not_validated [of "''joy''" "- 0.3" "''low''" None "[]"]
  by simp

section \<open>Wellness actions\<close>


text \<open>
  C6. For every emotion and stress level, listed in the tables or not, the selector
  returns, and neither the strategies nor the wellness actions are empty. This holds
  for \<^const>\<open>generate_response\<close> and \<^const>\<open>generate_wellness_recommendations\<close> and for
  the feedback \<^const>\<open>get_personalized_feedback\<close> composes from them.
\<close>

theorem select_never_empty:
  "(\<exists>r g'. generate_response emo conf stress ms g = Inr (r, g') \<and>
      learning_strategies r \<noteq> []) \<and>
   generate_wellness_recommendations score emo stress \<noteq> [] \<and>
   (\<exists>fb g'. get_personalized_feedback ed sd g = Inr (fb, g') \<and>
      strategies (learning_guidance fb) \<noteq> [] \<and>
      wellness_recommendations (immediate_actions fb) \<noteq> [])"
proof (intro conjI)
  from generate_response_returns [of emo conf stress ms g]
  obtain r g' where "generate_response emo conf stress ms g = Inr (r, g')"
    "length (learning_strategies r) = 3" by blast
  then have "generate_response emo conf stress ms g = Inr (r, g') \<and> learning_strategies r \<noteq> []"
    by auto
  then show "\<exists>r g'. generate_response emo conf stress ms g = Inr (r, g') \<and>
      learning_strategies r \<noteq> []" by blast
next
  show "generate_wellness_recommendations score emo stress \<noteq> []" by (rule wellness_nonempty)
next
  let ?e = "case dominant_emotion ed of Some e \<Rightarrow> e | None \<Rightarrow> ''neutral''"
  let ?c = "case emotion_data.confidence ed of Some c \<Rightarrow> c | None \<Rightarrow> 0"
  let ?s = "case stress_level sd of Some s \<Rightarrow> s | None \<Rightarrow> ''moderate''"
  let ?m = "case mind_score_data.mind_score
                           (case stress_data.mind_score sd of
                              Some d \<Rightarrow> d
                            | None \<Rightarrow> \<lparr>mind_score_data.mind_score = None\<rparr>) of
                      Some m \<Rightarrow> m
                    | None \<Rightarrow> 50"
  from generate_response_returns [of ?e ?c ?s "Some ?m" g]
  obtain r g' where r: "generate_response ?e ?c ?s (Some ?m) g = Inr (r, g')"
    "length (learning_strategies r) = 3" by blast
  from get_personalized_feedback_of_response [OF r(1)]
  obtain fb where fb: "get_personalized_feedback ed sd g = Inr (fb, g')"
    "strategies (learning_guidance fb) = learning_strategies r"
    "wellness_recommendations (immediate_actions fb) = generate_wellness_recommendations ?m ?e ?s"
    by blast
  from r(2) fb(2) have "strategies (learning_guidance fb) \<noteq> []" by auto
  moreover from fb(3) have "wellness_recommendations (immediate_actions fb) \<noteq> []"
    by (simp add: wellness_nonempty)
  ultimately show "\<exists>fb g'. get_personalized_feedback ed sd g = Inr (fb, g') \<and>
      strategies (learning_guidance fb) \<noteq> [] \<and>
      wellness_recommendations (immediate_actions fb) \<noteq> []"
    using fb(1) by blast
qed

section \<open>The study plan\<close>

text \<open>
  C7. The table of study plans has exactly the four keys (joy, low), (sadness, high),
  (anger, high) and (fear, moderate). A pair that is one of them, as an exact tuple,
  gets the plan stored under it; every other pair gets the default plan. Sadness with
  high stress gets the short, gentle plan of 15 to 20 minutes.
\<close>

theorem study_plan_table:
  "map fst plans = [(''joy'', ''low''), (''sadness'', ''high''), (''anger'', ''high''),
                    (''fear'', ''moderate'')] \<and>
   ((emo, stress) \<in> set (map fst plans) \<longrightarrow>
      map_of plans (emo, stress) = Some (generate_study_plan emo stress)) \<and>
   ((emo, stress) \<notin> set (map fst plans) \<longrightarrow>
      generate_study_plan emo stress = default_plan) \<and>
   generate_study_plan ''sadness'' ''high'' =
     \<lparr>duration = ''15-20 minutes'',
      approach = ''Gentle review of familiar topics'',
      breaks = ''Frequent, every 15 minutes'',
      recommendation = ''Be kind to yourself. Small steps count.''\<rparr>"
proof -
  have hit: "(emo, stress) \<in> set (map fst plans) \<longrightarrow>
      map_of plans (emo, stress) = Some (generate_study_plan emo stress)"
    by (auto simp: generate_study_plan_def map_of_eq_None_iff split: option.split)
  have miss: "(emo, stress) \<notin> set (map fst plans) \<longrightarrow>
      generate_study_plan emo stress = default_plan"
  proof
    assume "(emo, stress) \<notin> set (map fst plans)"
    then have "map_of plans (emo, stress) = None" by (simp add: map_of_eq_None_iff)
    then show "generate_study_plan emo stress = default_plan"
      by (simp add: generate_study_plan_def)
  qed
  have sad: "generate_study_plan ''sadness'' ''high'' =
     \<lparr>duration = ''15-20 minutes'',
      approach = ''Gentle review of familiar topics'',
      breaks = ''Frequent, every 15 minutes'',
      recommendation = ''Be kind to yourself. Small steps count.''\<rparr>"
    by (simp add: generate_study_plan_def plans_def)
  from plans_keys hit miss sad show ?thesis by blast
qed

theorem study_plan_table_witness:
  "generate_study_plan ''sadness'' ''moderate'' = default_plan \<and>
   generate_study_plan ''Sadness'' ''high'' = default_plan \<and>
   map_of plans (''fear'', ''moderate'') = Some (generate_study_plan ''fear'' ''moderate'') \<and>
   duration (generate_study_plan ''sadness'' ''high'') = ''15-20 minutes'' \<and>
   duration default_plan = ''30-40 minutes''"
  using study_plan_table [of "''sadness''" "''moderate''"]
    study_plan_table [of "''Sadness''" "''high''"]
    study_plan_table [of "''fear''" "''moderate''"]
  by (simp add: default_plan_def plans_def)

section \<open>Unknown labels\<close>

text \<open>
  C8, as claimed, fails for sentiment labels: a label is recognised by substring, so
  the unknown label nonnegative has the negative polarity of its confidence and the
  unknown label LABEL_not_positive the positive one, not 0.
\<close>

theorem unknown_sentiment_substring_polarity:
  "get_sentiment_polarity \<lparr>sentiment = ''nonnegative'', confidence = 0.9\<rparr> = - 0.9 \<and>
   get_sentiment_polarity \<lparr>sentiment = ''LABEL_not_positive'', confidence = 0.9\<rparr> = 0.9"
  by code_simp

text \<open>
  C8, amended. An unknown emotion label is treated as neutral and raises nothing: a
  facial label that is not a key of the label table maps to neutral; an emotion that,
  lower-cased, is not a key of the response table gets exactly the response of neutral,
  and a response is returned for every emotion; a category outside the valence table
  is normalized to neutral with valence 0. A sentiment label is classified by
  substring, whatever else it contains: if its lower-cased form contains positive the
  polarity is the confidence, otherwise if it contains negative the polarity is minus
  the confidence, and only a label that contains neither has polarity 0.
\<close>

theorem unknown_label_handling:
  "(facial \<notin> set (map fst mapping) \<longrightarrow> map_facial_to_text_emotion facial = ''neutral'') \<and>
   (lower emo \<notin> set (map fst load_emotion_responses) \<longrightarrow>
      generate_response emo conf stress ms g = generate_response ''neutral'' conf stress ms g) \<and>
   (\<exists>r g'. generate_response emo conf stress ms g = Inr (r, g')) \<and>
   (category \<notin> set (map fst base_valence) \<longrightarrow>
      normalize_emotion category conf = (''neutral'', 0)) \<and>
   (sublist ''positive'' (lower (sentiment res)) \<longrightarrow>
      get_sentiment_polarity res = sentiment_result.confidence res) \<and>
   (\<not> sublist ''positive'' (lower (sentiment res)) \<and>
    sublist ''negative'' (lower (sentiment res)) \<longrightarrow>
      get_sentiment_polarity res = - sentiment_result.confidence res) \<and>
   (\<not> sublist ''positive'' (lower (sentiment res)) \<and>
    \<not> sublist ''negative'' (lower (sentiment res)) \<longrightarrow> get_sentiment_polarity res = 0)"
proof (intro conjI impI)
  assume "facial \<notin> set (map fst mapping)"
  then have "map_of mapping facial = None" by (simp add: map_of_eq_None_iff)
  then show "map_facial_to_text_emotion facial = ''neutral''"
    by (simp add: map_facial_to_text_emotion_def dict_get_def)
next
  assume "lower emo \<notin> set (map fst load_emotion_responses)"
  then show "generate_response emo conf stress ms g = generate_response ''neutral'' conf stress ms g"
    by (rule unknown_emotion_response)
next
  from generate_response_returns [of emo conf stress ms g]
  show "\<exists>r g'. generate_response emo conf stress ms g = Inr (r, g')" by blast
next
  assume "category \<notin> set (map fst base_valence)"
  then have "map_of base_valence category = None" by (simp add: map_of_eq_None_iff)
  then show "normalize_emotion category conf = (''neutral'', 0)"
    by (simp add: normalize_emotion_def)
next
  assume "sublist ''positive'' (lower (sentiment res))"
  then show "get_sentiment_polarity res = sentiment_result.confidence res"
    by (simp add: get_sentiment_polarity_def)
next
  assume "\<not> sublist ''positive'' (lower (sentiment res)) \<and>
    sublist ''negative'' (lower (sentiment res))"
  then show "get_sentiment_polarity res = - sentiment_result.confidence res"
    by (simp add: get_sentiment_polarity_def)
next
  assume "\<not> sublist ''positive'' (lower (sentiment res)) \<and>
    \<not> sublist ''negative'' (lower (sentiment res))"
  then show "get_sentiment_polarity res = 0" by (simp add: get_sentiment_polarity_def)
qed

theorem unknown_label_handling_witness:
  "map_facial_to_text_emotion ''Contempt'' = ''neutral'' \<and>
   generate_response ''Confused'' 0.5 ''low'' None [1, 2] =
     generate_response ''neutral'' 0.5 ''low'' None [1, 2] \<and>
   normalize_emotion ''confused'' 0.5 = (''neutral'', 0) \<and>
   get_sentiment_polarity \<lparr>sentiment = ''Mixed'', confidence = 0.7\<rparr> = 0 \<and>
   get_sentiment_polarity \<lparr>sentiment = ''LABEL_not_positive'', confidence = 0.7\<rparr> = 0.7 \<and>
   get_sentiment_polarity \<lparr>sentiment = ''nonnegative'', confidence = 0.7\<rparr> = - 0.7"
proof -
  have h1: "''Contempt'' \<notin> set (map fst mapping)" by (simp add: mapping_def)
  have h2: "lower ''Confused'' \<notin> set (map fst load_emotion_responses)" by code_simp
  have h3: "''confused'' \<notin> set (map fst base_valence)" by (simp add: base_valence_def)
  have h4: "\<not> sublist ''positive'' (lower (sentiment \<lparr>sentiment = ''Mixed'', confidence = 0.7\<rparr>)) \<and>
    \<not> sublist ''negative'' (lower (sentiment \<lparr>sentiment = ''Mixed'', confidence = 0.7\<rparr>))"
    by code_simp
  have h5: "sublist ''positive''
              (lower (sentiment \<lparr>sentiment = ''LABEL_not_positive'', confidence = 0.7\<rparr>))"
    by code_simp
  have h6: "\<not> sublist ''positive''
                (lower (sentiment \<lparr>sentiment = ''nonnegative'', confidence = 0.7\<rparr>)) \<and>
    sublist ''negative'' (lower (sentiment \<lparr>sentiment = ''nonnegative'', confidence = 0.7\<rparr>))"
    by code_simp
  from unknown_label_handling [of "''Contempt''" "''Confused''" "0.5" "''low''" None "[1, 2]"
      "''confused''" "\<lparr>sentiment = ''Mixed'', confidence = 0.7\<rparr>"] h1 h2 h3 h4
  have a: "map_facial_to_text_emotion ''Contempt'' = ''neutral'' \<and>
   generate_response ''Confused'' 0.5 ''low'' None [1, 2] =
     generate_response ''neutral'' 0.5 ''low'' None [1, 2] \<and>
   normalize_emotion ''confused'' 0.5 = (''neutral'', 0) \<and>
   get_sentiment_polarity \<lparr>sentiment = ''Mixed'', confidence = 0.7\<rparr> = 0"
    by blast
  from unknown_label_handling [of "''Contempt''" "''Confused''" "0.5" "''low''" None "[1, 2]"
      "''confused''" "\<lparr>sentiment = ''LABEL_not_positive'', confidence = 0.7\<rparr>"] h5
  have b: "get_sentiment_polarity \<lparr>sentiment = ''LABEL_not_positive'', confidence = 0.7\<rparr> = 0.7"
    by simp
  from unknown_label_handling [of "''Contempt''" "''Confused''" "0.5" "''low''" None "[1, 2]"
      "''confused''" "\<lparr>sentiment = ''nonnegative'', confidence = 0.7\<rparr>"] h6
  have c: "get_sentiment_polarity \<lparr>sentiment = ''nonnegative'', confidence = 0.7\<rparr> = - 0.7"
    by simp
  from a b c show ?thesis by blast
qed

section \<open>The confidence note\<close>

text \<open>
  C9. The confidence note is a step function of the confidence with four bands that
  are pairwise disjoint and adjacent and together cover every value, so in particular
  all of [0,1]: the high-confidence phrasing exactly from 0.8 upwards, the medium
  phrasing exactly on [0.6, 0.8), the low phrasing exactly on [0.4, 0.6), and the
  explicit-uncertainty phrasing exactly below 0.4.
\<close>

theorem confidence_note_bands:
  "(get_confidence_note c = ''I'm very confident about this assessment.'' \<longleftrightarrow> 0.8 \<le> c) \<and>
   (get_confidence_note c = ''This assessment seems reliable.'' \<longleftrightarrow> 0.6 \<le> c \<and> c < 0.8) \<and>
   (get_confidence_note c = ''This is my best estimate - let me know if it feels off.''
      \<longleftrightarrow> 0.4 \<le> c \<and> c < 0.6) \<and>
   (get_confidence_note c = ''I'm somewhat uncertain - please provide more context if needed.''
      \<longleftrightarrow> c < 0.4)"
  by (simp add: get_confidence_note_def)

section \<open>Strategies for an unlisted stress level\<close>

text \<open>
  C10. For every stress level other than low, high and optimal, whether it is the
  documented level moderate or any other string such as unknown, the response is
  produced and its three strategies are pairwise different entries of the
  moderate-stress pool.
\<close>

theorem unlisted_stress_uses_moderate_pool:
  assumes "stress \<notin> {''low'', ''high'', ''optimal''}"
  shows "\<exists>r g'. generate_response emo conf stress ms g = Inr (r, g') \<and>
           length (learning_strategies r) = 3 \<and>
           distinct (learning_strategies r) \<and>
           set (learning_strategies r) \<subseteq>
             set (dict_get load_learning_strategies ''moderate_stress'' [])"
proof -
  from assms have n: "stress \<noteq> ''low''" "stress \<noteq> ''high''" "stress \<noteq> ''optimal''"
    by simp_all
  from generate_response_returns [of emo conf stress ms g]
  show ?thesis
    by (simp only: n(3) if_True not_False_eq_True not_True_eq_False if_False
        strategy_pool_moderate [OF n(1) n(2)]) blast
qed

theorem unlisted_stress_uses_moderate_pool_witness:
  "\<exists>r g'. generate_response ''joy'' 0.9 ''unknown'' None [4, 2, 0, 1, 3, 0, 7] = Inr (r, g') \<and>
     length (learning_strategies r) = 3 \<and>
     distinct (learning_strategies r) \<and>
     set (learning_strategies r) \<subseteq>
       set (dict_get load_learning_strategies ''moderate_stress'' [])"
  using unlisted_stress_uses_moderate_pool [of "''unknown''" "''joy''" "0.9" None "[4, 2, 0, 1, 3, 0, 7]"]
  by simp

end
